theory Spec2Isabelle
  imports Main "HOL-Library.Word"
begin

section \<open>Python values, exceptions and the external libraries\<close>

text \<open>
  The program is \<^verbatim>\<open>src/ddh_psi_sum.py\<close>. It is written against two external
  libraries, \<^verbatim>\<open>cryptography\<close> (elliptic curves, SHA-256) and \<^verbatim>\<open>phe\<close> (Paillier).
  Exceptions are values: every function that can raise returns \<open>py_error + 'a\<close>,
  \<open>Inl\<close> being the exception that leaves the function.
\<close>

datatype py_error =
    ValueError string
  | TypeError
  | AttributeError
  | ZeroDivisionError

type_synonym bytes = "8 word list"

definition bind_err :: "py_error + 'a \<Rightarrow> ('a \<Rightarrow> py_error + 'b) \<Rightarrow> py_error + 'b" where
  "bind_err r f = (case r of Inl e \<Rightarrow> Inl e | Inr v \<Rightarrow> f v)"

text \<open>
  The two classes of the elliptic-curve library that the program handles:
  \<open>Numbers x y\<close> is an \<^verbatim>\<open>EllipticCurvePublicNumbers\<close> (attributes \<^verbatim>\<open>x\<close>, \<^verbatim>\<open>y\<close>),
  \<open>Key x y\<close> an \<^verbatim>\<open>EllipticCurvePublicKey\<close> (methods \<^verbatim>\<open>public_numbers()\<close>,
  \<^verbatim>\<open>public_bytes()\<close>). An attribute or method looked up on a class that does not
  have it is Python's AttributeError.
\<close>

datatype pyobj = Numbers int int | Key int int

record curve =
  field_size :: int
  coeff_a :: int
  coeff_b :: int
  group_order :: int

text \<open>
  \<^verbatim>\<open>ec.SECP256R1()\<close>, the curve named at line 12: NIST P-256 with its standard
  constants. Lines 25 and 55 read an attribute \<open>field_size\<close> of the curve object, which
  the library's curve class does not document; the model gives it the value under
  which line 25 computes an x-coordinate, the prime of the field. Where the
  attribute is missing, both lines raise AttributeError instead of going on.
\<close>

definition SECP256R1 :: curve where
  "SECP256R1 = \<lparr>
     field_size = 115792089210356248762697446949407573530086143415290314195533631308867097853951,
     coeff_a = - 3,
     coeff_b = 41058363725152142129326129780047268409114441015993725554835256314039467401291,
     group_order = 115792089210356248762697446949407573529996955224135760342422259061068512044369 \<rparr>"

definition on_curve :: "curve \<Rightarrow> int \<Rightarrow> int \<Rightarrow> bool" where
  "on_curve c x y \<longleftrightarrow>
     0 \<le> x \<and> x < field_size c \<and> 0 \<le> y \<and> y < field_size c \<and>
     (y * y - (x * x * x + coeff_a c * x + coeff_b c)) mod field_size c = 0"

text \<open>
  Arguments of a constructor call, as Python passes them positionally.
  \<^verbatim>\<open>EllipticCurvePublicNumbers(x, y, curve)\<close> takes two integers and a curve (lines
  41 to 45 call it so) and does not check the curve equation; any other argument
  list is a TypeError.
\<close>

datatype arg = AInt int | ACurve curve

fun EllipticCurvePublicNumbers :: "arg list \<Rightarrow> py_error + pyobj" where
  "EllipticCurvePublicNumbers [AInt x, AInt y, ACurve c] = Inr (Numbers x y)"
| "EllipticCurvePublicNumbers _ = Inl TypeError"

text \<open>
  The methods that the source calls on these objects. The library has
  \<^verbatim>\<open>public_numbers()\<close> and \<^verbatim>\<open>public_bytes()\<close> on a key and no method \<^verbatim>\<open>to_key\<close> on
  either class (public numbers are made a key by \<^verbatim>\<open>public_key()\<close>), so the attribute
  lookup \<^verbatim>\<open>.to_key\<close> of lines 28, 37, 74, 119 and 128 raises AttributeError before
  anything is called.
\<close>

definition to_key :: "pyobj \<Rightarrow> py_error + pyobj" where
  "to_key obj = Inl AttributeError"

definition public_numbers :: "pyobj \<Rightarrow> py_error + pyobj" where
  "public_numbers obj =
     (case obj of Key x y \<Rightarrow> Inr (Numbers x y) | Numbers x y \<Rightarrow> Inl AttributeError)"

text \<open>
  What stays a parameter of the model: the hash function, the decoding and the
  compressed encoding of points, and the test that an integer is a private value of
  the curve. The library signals a rejected encoding and a rejected private value with
  a ValueError; its message is not used by the program.
\<close>

record ec_lib =
  sha256 :: "bytes \<Rightarrow> bytes"
  decode_point :: "curve \<Rightarrow> bytes \<Rightarrow> (int \<times> int) option"
  compressed_point :: "int \<Rightarrow> int \<Rightarrow> bytes"
  valid_private_value :: "curve \<Rightarrow> int \<Rightarrow> bool"

definition from_encoded_point :: "ec_lib \<Rightarrow> curve \<Rightarrow> bytes \<Rightarrow> py_error + pyobj" where
  "from_encoded_point L c bs =
     (case decode_point L c bs of
        None \<Rightarrow> Inl (ValueError ''invalid encoded point'')
      | Some (x, y) \<Rightarrow> Inr (Key x y))"

definition derive_private_key :: "ec_lib \<Rightarrow> int \<Rightarrow> curve \<Rightarrow> py_error + unit" where
  "derive_private_key L v c =
     (if valid_private_value L c v then Inr () else Inl (ValueError ''invalid private value''))"

definition public_bytes :: "ec_lib \<Rightarrow> pyobj \<Rightarrow> py_error + bytes" where
  "public_bytes L obj =
     (case obj of Key x y \<Rightarrow> Inr (compressed_point L x y) | Numbers x y \<Rightarrow> Inl AttributeError)"

section \<open>DDHGroup\<close>

record DDHGroup =
  curve :: curve
  generator :: pyobj

definition generator_bytes :: bytes where
  "generator_bytes =
     [0x04,
      0x79, 0xBE, 0x66, 0x7E, 0xF9, 0xDC, 0xBB, 0xAC, 0x55, 0xA0, 0x62, 0x95, 0xCE, 0x87, 0x0B, 0x07,
      0x02, 0x9B, 0xFC, 0xDB, 0x2D, 0xCE, 0x28, 0xD9, 0x59, 0xF2, 0x81, 0x5B, 0x16, 0xF8, 0x17, 0x98,
      0x48, 0x3A, 0xDA, 0x77, 0x26, 0xA3, 0xC4, 0x65, 0x5D, 0xA4, 0xFB, 0xFC, 0x0E, 0x11, 0x08, 0xA8,
      0xFD, 0x17, 0xB4, 0x48, 0xA6, 0x85, 0x54, 0x19, 0x9C, 0x47, 0xD0, 0x8F, 0xFB, 0x10, 0xD4, 0xB8]"

definition DDHGroup_init :: "ec_lib \<Rightarrow> py_error + DDHGroup" where
  "DDHGroup_init L =
     bind_err (from_encoded_point L SECP256R1 generator_bytes) (\<lambda>key.
     bind_err (public_numbers key) (\<lambda>g.
     Inr \<lparr> curve = SECP256R1, generator = g \<rparr>))"

definition int_from_bytes :: "bytes \<Rightarrow> int" where
  "int_from_bytes bs = foldl (\<lambda>acc b. acc * 256 + uint b) 0 bs"

definition to_bytes4 :: "nat \<Rightarrow> bytes" where
  "to_bytes4 i = [of_nat (i div 16777216), of_nat (i div 65536), of_nat (i div 256), of_nat i]"

text \<open>
  \<^verbatim>\<open>str.encode()\<close> is UTF-8: a character below 128 is one byte, a character from 128
  to 255 two bytes.
\<close>

definition utf8_char :: "char \<Rightarrow> bytes" where
  "utf8_char ch =
     (let cp = (of_char ch :: nat) in
      if cp < 128 then [of_nat cp] else [of_nat (192 + cp div 64), of_nat (128 + cp mod 64)])"

definition encode_str :: "string \<Rightarrow> bytes" where
  "encode_str s = concat (map utf8_char s)"

text \<open>
  One pass of the loop body of \<^verbatim>\<open>hash_to_curve\<close> (lines 23 to 29), for counter \<open>i\<close>:
  the digest, its reduction modulo \<open>field_size\<close>, and the construction of the point.
  Line 28 calls the constructor with the two arguments \<open>x\<close> and the curve.
\<close>

definition hash_attempt :: "ec_lib \<Rightarrow> DDHGroup \<Rightarrow> bytes \<Rightarrow> nat \<Rightarrow> py_error + pyobj" where
  "hash_attempt L self data i =
     (let digest = sha256 L (data @ to_bytes4 i) in
      if field_size (curve self) = 0 then Inl ZeroDivisionError
      else
        let x = int_from_bytes digest mod field_size (curve self) in
        bind_err (EllipticCurvePublicNumbers [AInt x, ACurve (curve self)]) to_key)"

text \<open>
  The \<^verbatim>\<open>for\<close> loop with its \<^verbatim>\<open>try\<close>: a ValueError of the body goes on to the next
  counter, a point or any other exception leaves the function, and the exhausted
  range raises.
\<close>

fun try_counters :: "(nat \<Rightarrow> py_error + pyobj) \<Rightarrow> nat list \<Rightarrow> py_error + pyobj" where
  "try_counters attempt [] = Inl (ValueError ''Failed to hash to curve'')"
| "try_counters attempt (i # rest) =
     (case attempt i of
        Inl (ValueError m) \<Rightarrow> try_counters attempt rest
      | Inl e \<Rightarrow> Inl e
      | Inr point \<Rightarrow> Inr point)"

definition hash_to_curve :: "ec_lib \<Rightarrow> DDHGroup \<Rightarrow> string \<Rightarrow> bytes \<Rightarrow> py_error + pyobj" where
  "hash_to_curve L self identifier seed =
     (let data = seed @ encode_str identifier in
      try_counters (hash_attempt L self data) [0 ..< 1000])"


text \<open>
  \<^verbatim>\<open>exponentiate\<close> (lines 34 to 46). The private key derived at line 36 is not used,
  but deriving it can raise. The loop of lines 40 to 45 runs \<open>exponent - 1\<close> times
  (not at all when \<open>exponent \<le> 1\<close>) and adds the coordinates of the point as integers.
\<close>

fun add_coordinates :: "curve \<Rightarrow> int \<Rightarrow> int \<Rightarrow> nat \<Rightarrow> pyobj \<Rightarrow> py_error + pyobj" where
  "add_coordinates c px py 0 result = Inr result"
| "add_coordinates c px py (Suc n) result =
     (case result of
        Numbers rx ry \<Rightarrow>
          bind_err (EllipticCurvePublicNumbers [AInt (rx + px), AInt (ry + py), ACurve c])
            (add_coordinates c px py n)
      | Key kx ky \<Rightarrow> Inl AttributeError)"

definition exponentiate :: "ec_lib \<Rightarrow> DDHGroup \<Rightarrow> pyobj \<Rightarrow> int \<Rightarrow> py_error + pyobj" where
  "exponentiate L self point exponent =
     bind_err (derive_private_key L exponent (curve self)) (\<lambda>key.
     bind_err (to_key point) (\<lambda>public_point.
     bind_err (public_numbers public_point) (\<lambda>result.
       case result of
         Numbers px py \<Rightarrow> add_coordinates (curve self) px py (nat (exponent - 1)) result
       | Key kx ky \<Rightarrow> Inl AttributeError)))"

section \<open>The Paillier library\<close>

record PaillierPublicKey =
  modulus_n :: int

record PaillierPrivateKey =
  prime_p :: int
  prime_q :: int

text \<open>
  The source reads \<^verbatim>\<open>key_pair.public_key\<close> (lines 127 and 140) and calls
  \<^verbatim>\<open>key_pair.decrypt\<close> (line 135) on the value that key generation returned; the
  record gives that value these attributes. Where key generation returns a plain pair
  of keys, the lookups raise AttributeError instead.
\<close>

record key_pair =
  public_key :: PaillierPublicKey
  private_key :: PaillierPrivateKey

text \<open>
  The operations of \<^verbatim>\<open>phe\<close> are parameters: key generation for a requested modulus
  length, encryption (with the randomness it draws made explicit), the addition of
  ciphertexts written \<^verbatim>\<open>+\<close> in the source, and decryption.
\<close>

record ('r, 'c) phe_lib =
  paillier_keygen :: "nat \<Rightarrow> 'r \<Rightarrow> key_pair"
  encrypt :: "PaillierPublicKey \<Rightarrow> 'r \<Rightarrow> int \<Rightarrow> 'c"
  ct_add :: "'c \<Rightarrow> 'c \<Rightarrow> 'c"
  decrypt :: "key_pair \<Rightarrow> 'c \<Rightarrow> int"

section \<open>Randomness\<close>

text \<open>
  The program draws from the operating system and from Python's \<^verbatim>\<open>random\<close>. Each
  draw is an argument of the model: \<open>urandom\<close> reads a byte source, \<open>randint\<close> maps a
  raw draw into the closed range it was asked for (and raises on an empty range),
  \<open>shuffle\<close> applies the drawn permutation of the indices; a draw that is no
  permutation of the indices stands for the identity.
\<close>

definition urandom :: "nat \<Rightarrow> (nat \<Rightarrow> 8 word) \<Rightarrow> bytes" where
  "urandom len src = map src [0 ..< len]"

definition randint :: "int \<Rightarrow> int \<Rightarrow> int \<Rightarrow> py_error + int" where
  "randint lo hi draw =
     (if hi < lo then Inl (ValueError ''empty range for randrange()'')
      else Inr (lo + draw mod (hi - lo + 1)))"

definition shuffle :: "nat list \<Rightarrow> 'a list \<Rightarrow> 'a list" where
  "shuffle perm xs = (if sort perm = [0 ..< length xs] then map (\<lambda>i. xs ! i) perm else xs)"

section \<open>Parties\<close>

record party =
  name :: string
  ddh :: DDHGroup
  key_pair :: "key_pair option"
  other_public_key :: "PaillierPublicKey option"
  seed :: bytes
  k :: int

record party1 = party +
  identifiers :: "string list"

record party2 = party +
  pairs :: "(string \<times> int) list"

text \<open>
  \<^verbatim>\<open>Party.__init__\<close> (lines 49 to 55). \<open>seed_src\<close> is the byte source behind
  \<^verbatim>\<open>os.urandom(16)\<close>, \<open>k_draw\<close> the draw behind \<^verbatim>\<open>random.randint\<close>.
\<close>

definition Party_init :: "ec_lib \<Rightarrow> string \<Rightarrow> (nat \<Rightarrow> 8 word) \<Rightarrow> int \<Rightarrow> py_error + party" where
  "Party_init L nm seed_src k_draw =
     bind_err (DDHGroup_init L) (\<lambda>d.
     bind_err (randint 1 (field_size (curve d) - 1) k_draw) (\<lambda>kv.
     Inr \<lparr> name = nm, ddh = d, key_pair = None, other_public_key = None,
           seed = urandom 16 seed_src, k = kv \<rparr>))"

definition generate_paillier_keypair :: "('r, 'c) phe_lib \<Rightarrow> 'r \<Rightarrow> 'a party_scheme \<Rightarrow> 'a party_scheme" where
  "generate_paillier_keypair P r self = self\<lparr> key_pair := Some (paillier_keygen P 1536 r) \<rparr>"

definition set_other_public_key :: "PaillierPublicKey \<Rightarrow> 'a party_scheme \<Rightarrow> 'a party_scheme" where
  "set_other_public_key pk self = self\<lparr> other_public_key := Some pk \<rparr>"

definition Party1_init :: "ec_lib \<Rightarrow> string list \<Rightarrow> (nat \<Rightarrow> 8 word) \<Rightarrow> int \<Rightarrow> py_error + party1" where
  "Party1_init L ids seed_src k_draw =
     bind_err (Party_init L ''P1'' seed_src k_draw) (\<lambda>base.
     Inr (party.extend base (party1.fields ids)))"

definition Party2_init ::
  "ec_lib \<Rightarrow> ('r, 'c) phe_lib \<Rightarrow> (string \<times> int) list \<Rightarrow> (nat \<Rightarrow> 8 word) \<Rightarrow> int \<Rightarrow> 'r \<Rightarrow> py_error + party2" where
  "Party2_init L P prs seed_src k_draw r =
     bind_err (Party_init L ''P2'' seed_src k_draw) (\<lambda>base.
     Inr (generate_paillier_keypair P r (party.extend base (party2.fields prs))))"

text \<open>A list comprehension or loop whose body can raise: the first exception ends it.\<close>

fun map_err :: "('a \<Rightarrow> py_error + 'b) \<Rightarrow> 'a list \<Rightarrow> py_error + 'b list" where
  "map_err f [] = Inr []"
| "map_err f (x # xs) =
     (case f x of
        Inl e \<Rightarrow> Inl e
      | Inr y \<Rightarrow> (case map_err f xs of Inl e \<Rightarrow> Inl e | Inr ys \<Rightarrow> Inr (y # ys)))"

definition serialize :: "ec_lib \<Rightarrow> pyobj \<Rightarrow> py_error + bytes" where
  "serialize L e = bind_err (to_key e) (public_bytes L)"

definition deserialize :: "ec_lib \<Rightarrow> curve \<Rightarrow> bytes \<Rightarrow> py_error + pyobj" where
  "deserialize L c bs = bind_err (from_encoded_point L c bs) public_numbers"


section \<open>The three rounds\<close>

text \<open>
  \<^verbatim>\<open>Party1.round1\<close> (lines 69 to 76). The identifiers are a Python set; the list is
  the order in which the comprehension of line 71 meets them.
\<close>

definition round1 :: "ec_lib \<Rightarrow> nat list \<Rightarrow> party1 \<Rightarrow> py_error + bytes list" where
  "round1 L perm self =
     bind_err (map_err (\<lambda>v. hash_to_curve L (ddh self) v (seed self)) (identifiers self)) (\<lambda>hashed.
     bind_err (map_err (\<lambda>h. exponentiate L (ddh self) h (k self)) hashed) (\<lambda>exponentiated.
     bind_err (map_err (serialize L) exponentiated) (\<lambda>result.
     Inr (shuffle perm result))))"

text \<open>\<^verbatim>\<open>Party2.round2\<close> (lines 112 to 131); \<open>rs j\<close> is the randomness of the \<open>j\<close>-th encryption.\<close>

definition round2_z :: "ec_lib \<Rightarrow> party2 \<Rightarrow> bytes \<Rightarrow> py_error + bytes" where
  "round2_z L self v_bytes =
     bind_err (deserialize L (curve (ddh self)) v_bytes) (\<lambda>point.
     bind_err (exponentiate L (ddh self) point (k self)) (\<lambda>z_point.
     serialize L z_point))"

definition round2_pair ::
  "ec_lib \<Rightarrow> ('r, 'c) phe_lib \<Rightarrow> party2 \<Rightarrow> (string \<times> int) \<times> 'r \<Rightarrow> py_error + (bytes \<times> 'c)" where
  "round2_pair L P self wtr =
     (case wtr of ((w, t), r) \<Rightarrow>
        bind_err (hash_to_curve L (ddh self) w (seed self)) (\<lambda>w_hash.
        bind_err (exponentiate L (ddh self) w_hash (k self)) (\<lambda>w_exp.
        bind_err (case key_pair self of
                    None \<Rightarrow> Inl AttributeError
                  | Some kp \<Rightarrow> Inr (encrypt P (public_key kp) r t)) (\<lambda>enc_t.
        bind_err (serialize L w_exp) (\<lambda>w_bytes.
        Inr (w_bytes, enc_t))))))"

definition round2 ::
  "ec_lib \<Rightarrow> ('r, 'c) phe_lib \<Rightarrow> nat list \<Rightarrow> nat list \<Rightarrow> (nat \<Rightarrow> 'r) \<Rightarrow> party2 \<Rightarrow> bytes list
     \<Rightarrow> py_error + (bytes list \<times> (bytes \<times> 'c) list)" where
  "round2 L P perm_z perm_w rs self v_hashed =
     bind_err (map_err (round2_z L self) v_hashed) (\<lambda>z.
     bind_err (map_err (round2_pair L P self)
                 (zip (pairs self) (map rs [0 ..< length (pairs self)]))) (\<lambda>w_pairs.
     Inr (shuffle perm_z z, shuffle perm_w w_pairs)))"

text \<open>
  \<^verbatim>\<open>Party1.round3\<close> (lines 78 to 104), in its three parts: the set of decoded points
  of \<open>Z\<close>, the loop that collects the matching ciphertexts, and the sum.
\<close>

definition round3_z_point :: "ec_lib \<Rightarrow> party1 \<Rightarrow> bytes \<Rightarrow> py_error + (int \<times> int)" where
  "round3_z_point L self z_bytes =
     bind_err (deserialize L (curve (ddh self)) z_bytes) (\<lambda>point.
       case point of Numbers x y \<Rightarrow> Inr (x, y) | Key x y \<Rightarrow> Inl AttributeError)"

definition round3_z_points :: "ec_lib \<Rightarrow> party1 \<Rightarrow> bytes list \<Rightarrow> py_error + (int \<times> int) list" where
  "round3_z_points L self z = map_err (round3_z_point L self) z"

fun round3_intersection ::
  "ec_lib \<Rightarrow> party1 \<Rightarrow> (int \<times> int) list \<Rightarrow> 'c list \<Rightarrow> (bytes \<times> 'c) list \<Rightarrow> py_error + 'c list" where
  "round3_intersection L self z_points intersection [] = Inr intersection"
| "round3_intersection L self z_points intersection ((w_bytes, enc_t) # rest) =
     bind_err (deserialize L (curve (ddh self)) w_bytes) (\<lambda>w_point.
     bind_err (exponentiate L (ddh self) w_point (k self)) (\<lambda>w_exp.
       case w_exp of
         Numbers x y \<Rightarrow>
           if (x, y) \<in> set z_points
           then round3_intersection L self z_points (intersection @ [enc_t]) rest
           else round3_intersection L self z_points intersection rest
       | Key x y \<Rightarrow> Inl AttributeError))"

definition round3_sum ::
  "('r, 'c) phe_lib \<Rightarrow> 'r \<Rightarrow> party1 \<Rightarrow> 'c list \<Rightarrow> py_error + (nat \<times> 'c)" where
  "round3_sum P r self intersection =
     (let cardinality = length intersection in
      case other_public_key self of
        None \<Rightarrow> Inl AttributeError
      | Some pk \<Rightarrow>
          (case intersection of
             [] \<Rightarrow> Inr (cardinality, encrypt P pk r 0)
           | c0 # cs \<Rightarrow>
               Inr (cardinality, ct_add P (foldl (ct_add P) c0 cs) (encrypt P pk r 0))))"

definition round3 ::
  "ec_lib \<Rightarrow> ('r, 'c) phe_lib \<Rightarrow> 'r \<Rightarrow> party1 \<Rightarrow> bytes list \<Rightarrow> (bytes \<times> 'c) list \<Rightarrow> py_error + (nat \<times> 'c)" where
  "round3 L P r self z w_pairs =
     bind_err (round3_z_points L self z) (\<lambda>z_points.
     bind_err (round3_intersection L self z_points [] w_pairs) (\<lambda>intersection.
     round3_sum P r self intersection))"

definition output_P2 :: "('r, 'c) phe_lib \<Rightarrow> party2 \<Rightarrow> 'c \<Rightarrow> py_error + int" where
  "output_P2 P self sum_ciphertext =
     (case key_pair self of
        None \<Rightarrow> Inl AttributeError
      | Some kp \<Rightarrow> Inr (decrypt P kp sum_ciphertext))"

text \<open>\<^verbatim>\<open>run_protocol\<close> (lines 137 to 153). The draws of the three rounds are collected in a record.\<close>

record 'r draws =
  perm1 :: "nat list"
  perm_z :: "nat list"
  perm_w :: "nat list"
  enc_draws :: "nat \<Rightarrow> 'r"
  refresh_draw :: 'r

definition run_protocol ::
  "ec_lib \<Rightarrow> ('r, 'c) phe_lib \<Rightarrow> 'r draws \<Rightarrow> party1 \<Rightarrow> party2 \<Rightarrow> py_error + (nat \<times> int)" where
  "run_protocol L P d p1 p2 =
     bind_err (case key_pair p2 of None \<Rightarrow> Inl AttributeError | Some kp \<Rightarrow> Inr (public_key kp)) (\<lambda>pk.
     let p1' = set_other_public_key pk p1 in
     bind_err (round1 L (perm1 d) p1') (\<lambda>v_hashed.
     bind_err (round2 L P (perm_z d) (perm_w d) (enc_draws d) p2 v_hashed) (\<lambda>zw.
     bind_err (round3 L P (refresh_draw d) p1' (fst zw) (snd zw)) (\<lambda>cs.
     bind_err (output_P2 P p2 (snd cs)) (\<lambda>intersection_sum.
     Inr (fst cs, intersection_sum))))))"


section \<open>Instances of the libraries and inputs used in the examples\<close>

text \<open>
  A decoder for the X9.62 encodings of a point, as \<^verbatim>\<open>from_encoded_point\<close> reads them:
  the uncompressed form (\<open>0x04\<close>, then \<open>x\<close> and \<open>y\<close> in 32 bytes each) and the compressed
  form (\<open>0x02\<close> or \<open>0x03\<close> for the parity of \<open>y\<close>, then \<open>x\<close>), with \<open>y\<close> recovered as a
  square root modulo the field prime. Only a point of the curve is returned.
\<close>

fun mod_pow :: "int \<Rightarrow> nat \<Rightarrow> int \<Rightarrow> int" where
  "mod_pow b e m =
     (if e = 0 then 1 mod m
      else let h = mod_pow b (e div 2) m; s = h * h mod m
           in if even e then s else s * b mod m)"

declare mod_pow.simps [simp del]

definition decode_x962 :: "curve \<Rightarrow> bytes \<Rightarrow> (int \<times> int) option" where
  "decode_x962 c bs =
     (case bs of
        [] \<Rightarrow> None
      | tag # rest \<Rightarrow>
          if tag = 0x04 \<and> length rest = 64 then
            (let x = int_from_bytes (take 32 rest); y = int_from_bytes (drop 32 rest)
             in if on_curve c x y then Some (x, y) else None)
          else if (tag = 0x02 \<or> tag = 0x03) \<and> length rest = 32 then
            (let x = int_from_bytes rest;
                 rhs = (x * x * x + coeff_a c * x + coeff_b c) mod field_size c;
                 y0 = mod_pow rhs (nat ((field_size c + 1) div 4)) (field_size c);
                 y = (if even y0 = (tag = 0x02) then y0 else field_size c - y0)
             in if on_curve c x y then Some (x, y) else None)
          else None)"

definition int_to_bytes32 :: "int \<Rightarrow> bytes" where
  "int_to_bytes32 v = map (\<lambda>i. of_int (v div 256 ^ (31 - i))) [0 ..< 32]"

definition example_ec :: ec_lib where
  "example_ec = \<lparr>
     sha256 = (\<lambda>bs. bs),
     decode_point = decode_x962,
     compressed_point = (\<lambda>x y. (if even y then 0x02 else 0x03) # int_to_bytes32 x),
     valid_private_value = (\<lambda>c v. 1 \<le> v \<and> v < group_order c) \<rparr>"

text \<open>
  The contract of the library's decoder that the statements below rely on: a decoded
  point is a point of the curve, and the uncompressed form decodes to the
  coordinates written in it.
\<close>

definition decoder_validates :: "ec_lib \<Rightarrow> bool" where
  "decoder_validates L \<longleftrightarrow>
     (\<forall>c bs x y. decode_point L c bs = Some (x, y) \<longrightarrow>
        on_curve c x y \<and>
        (\<forall>rest. bs = 0x04 # rest \<longrightarrow>
           x = int_from_bytes (take 32 rest) \<and> y = int_from_bytes (drop 32 rest)))"

text \<open>The base point of P-256 and its double, in uncompressed form.\<close>

definition p256_base_x :: int where
  "p256_base_x = 48439561293906451759052585252797914202762949526041747995844080717082404635286"

definition p256_base_y :: int where
  "p256_base_y = 36134250956749795798585127919587881956611106672985015071877198253568414405109"

definition p256_base_bytes :: bytes where
  "p256_base_bytes =
     [0x04,
      0x6B, 0x17, 0xD1, 0xF2, 0xE1, 0x2C, 0x42, 0x47, 0xF8, 0xBC, 0xE6, 0xE5, 0x63, 0xA4, 0x40, 0xF2,
      0x77, 0x03, 0x7D, 0x81, 0x2D, 0xEB, 0x33, 0xA0, 0xF4, 0xA1, 0x39, 0x45, 0xD8, 0x98, 0xC2, 0x96,
      0x4F, 0xE3, 0x42, 0xE2, 0xFE, 0x1A, 0x7F, 0x9B, 0x8E, 0xE7, 0xEB, 0x4A, 0x7C, 0x0F, 0x9E, 0x16,
      0x2B, 0xCE, 0x33, 0x57, 0x6B, 0x31, 0x5E, 0xCE, 0xCB, 0xB6, 0x40, 0x68, 0x37, 0xBF, 0x51, 0xF5]"

definition p256_double_bytes :: bytes where
  "p256_double_bytes =
     [0x04,
      0x7C, 0xF2, 0x7B, 0x18, 0x8D, 0x03, 0x4F, 0x7E, 0x8A, 0x52, 0x38, 0x03, 0x04, 0xB5, 0x1A, 0xC3,
      0xC0, 0x89, 0x69, 0xE2, 0x77, 0xF2, 0x1B, 0x35, 0xA6, 0x0B, 0x48, 0xFC, 0x47, 0x66, 0x99, 0x78,
      0x07, 0x77, 0x55, 0x10, 0xDB, 0x8E, 0xD0, 0x40, 0x29, 0x3D, 0x9A, 0xC6, 0x9F, 0x74, 0x30, 0xDB,
      0xBA, 0x7D, 0xAD, 0xE6, 0x3C, 0xE9, 0x82, 0x29, 0x9E, 0x04, 0xB7, 0x9D, 0x22, 0x78, 0x73, 0xD1]"

text \<open>
  A stand-in for the Paillier library with the homomorphic law and no secrecy: a
  ciphertext is the plaintext modulo \<open>N\<close> with the randomness beside it. Key generation
  returns a modulus of the requested length, for 1536 bits the product of two
  768-bit primes.
\<close>

definition example_prime_p :: int where
  "example_prime_p = 1354190631294495388625215047672828447895492050336520852543494022037549192023387275690681270959337781941008269546968744548898050664646545425353858031133032417489242622084542359664142065024163971862023001483463604616049919469459527379"

definition example_prime_q :: int where
  "example_prime_q = 1333800056012180390116822345808098845521631832623088231289337586388279255366632821285109197538398486240920910455866087025791482144038119185950103904590558947282550250265185628991536776551122586858407404328656264465415740502012052289"

definition example_keygen :: "nat \<Rightarrow> int \<Rightarrow> key_pair" where
  "example_keygen len r =
     (if len = 1536
      then \<lparr> public_key = \<lparr> modulus_n = example_prime_p * example_prime_q \<rparr>,
             private_key = \<lparr> prime_p = example_prime_p, prime_q = example_prime_q \<rparr> \<rparr>
      else \<lparr> public_key = \<lparr> modulus_n = 2 ^ len - 1 \<rparr>,
             private_key = \<lparr> prime_p = 1, prime_q = 2 ^ len - 1 \<rparr> \<rparr>)"

definition example_phe :: "(int, int \<times> int) phe_lib" where
  "example_phe = \<lparr>
     paillier_keygen = example_keygen,
     encrypt = (\<lambda>pk r m. (m mod modulus_n pk, r)),
     ct_add = (\<lambda>c1 c2. (fst c1 + fst c2, snd c1 + snd c2)),
     decrypt = (\<lambda>kp c. fst c mod modulus_n (public_key kp)) \<rparr>"

definition test_seed :: bytes where
  "test_seed = encode_str ''test_seed_1234567890''"

definition example_group :: DDHGroup where
  "example_group = \<lparr> curve = SECP256R1, generator = Numbers p256_base_x p256_base_y \<rparr>"

definition example_party1 :: party1 where
  "example_party1 = \<lparr> name = ''P1'', ddh = example_group, key_pair = None,
     other_public_key = Some (public_key (example_keygen 1536 0)), seed = test_seed, k = 1,
     identifiers = [''user1'', ''user2''] \<rparr>"

definition example_party2 :: party2 where
  "example_party2 = \<lparr> name = ''P2'', ddh = example_group,
     key_pair = Some (example_keygen 1536 0), other_public_key = None, seed = test_seed, k = 1,
     pairs = [(''user1'', 15)] \<rparr>"


section \<open>The sum of round 3 in the words of the specification\<close>

text \<open>
  Section 4.3 of the specification describes the ciphertext of round 3 for a list \<open>I\<close>
  of matched ciphertexts: \<open>encrypt(pk, 0)\<close> for the empty list, otherwise the sum of
  \<open>I\<close> by repeated addition, rerandomised by \<open>add(c, encrypt(pk, 0))\<close>. These
  definitions follow that text; they are compared with lines 94 to 104 below.
\<close>

definition rerandomize :: "('r, 'c) phe_lib \<Rightarrow> PaillierPublicKey \<Rightarrow> 'r \<Rightarrow> 'c \<Rightarrow> 'c" where
  "rerandomize P pk r c = ct_add P c (encrypt P pk r 0)"

fun repeated_add :: "('r, 'c) phe_lib \<Rightarrow> 'c \<Rightarrow> 'c list \<Rightarrow> 'c" where
  "repeated_add P acc [] = acc"
| "repeated_add P acc (c # cs) = repeated_add P (ct_add P acc c) cs"

definition spec_sum_ciphertext ::
  "('r, 'c) phe_lib \<Rightarrow> PaillierPublicKey \<Rightarrow> 'r \<Rightarrow> 'c list \<Rightarrow> 'c" where
  "spec_sum_ciphertext P pk r I =
     (case I of
        [] \<Rightarrow> encrypt P pk r 0
      | c # cs \<Rightarrow> rerandomize P pk r (repeated_add P c cs))"

text \<open>A point of the message with one byte changed.\<close>

definition tampered_bytes :: bytes where
  "tampered_bytes = p256_base_bytes [64 := 0xF4]"

section \<open>The test of hash_to_curve\<close>

text \<open>
  \<^verbatim>\<open>test_hash_to_curve_consistency\<close> (\<^verbatim>\<open>test.py\<close>, lines 101 to 112), from the two
  constructed parties on: both get the seed of the tests, \<^verbatim>\<open>hash_to_curve\<close> is called
  once on each party's group with the same identifier and seed, and the coordinates
  of the two results are compared. \<open>Inr True\<close> is the passing test, \<open>Inr False\<close> a
  failed assertion.
\<close>

definition test_hash_to_curve_consistency :: "ec_lib \<Rightarrow> party1 \<Rightarrow> party2 \<Rightarrow> py_error + bool" where
  "test_hash_to_curve_consistency L p1 p2 =
     (let p1' = p1\<lparr>seed := test_seed\<rparr>; p2' = p2\<lparr>seed := test_seed\<rparr> in
      bind_err (hash_to_curve L (ddh p1') ''user1'' test_seed) (\<lambda>point1.
      bind_err (hash_to_curve L (ddh p2') ''user1'' test_seed) (\<lambda>point2.
        case (point1, point2) of
          (Numbers x1 y1, Numbers x2 y2) \<Rightarrow> Inr (x1 = x2 \<and> y1 = y2)
        | _ \<Rightarrow> Inl AttributeError)))"

section \<open>Basic facts\<close>

lemma bind_err_Inl [simp]: "bind_err (Inl e) f = Inl e"
  by (simp add: bind_err_def)

lemma bind_err_Inr [simp]: "bind_err (Inr v) f = f v"
  by (simp add: bind_err_def)

lemma field_size_P256_nonzero: "field_size SECP256R1 \<noteq> 0"
  by (simp add: SECP256R1_def)

lemma curve_example_group: "curve example_group = SECP256R1"
  by (simp add: example_group_def)

section \<open>hash_to_curve\<close>

text \<open>
  The constructor call of line 28 has no \<open>y\<close>, so the body of the loop raises
  TypeError for every counter. The handler of line 30 catches ValueError only.
\<close>

lemma hash_attempt_TypeError:
  "field_size (curve g) \<noteq> 0 \<Longrightarrow> hash_attempt L g data i = Inl TypeError"
  by (simp add: hash_attempt_def Let_def)

lemma try_counters_TypeError:
  "cs \<noteq> [] \<Longrightarrow> \<forall>i. attempt i = Inl TypeError \<Longrightarrow> try_counters attempt cs = Inl TypeError"
  by (cases cs) simp_all

lemma upt_1000_nonempty: "[0 ..< 1000] \<noteq> []"
  by simp

lemma hash_to_curve_TypeError:
  "field_size (curve g) \<noteq> 0 \<Longrightarrow> hash_to_curve L g ident sd = Inl TypeError"
  unfolding hash_to_curve_def Let_def
  by (rule try_counters_TypeError [OF upt_1000_nonempty]) (simp add: hash_attempt_TypeError)

text \<open>
  The loop by itself, for any body: counters whose body raises ValueError are passed
  over, the first other outcome is the result, and 1000 ValueErrors end in the error
  of line 32.
\<close>

lemma try_counters_all_ValueError:
  "\<forall>i \<in> set cs. \<exists>m. attempt i = Inl (ValueError m) \<Longrightarrow>
   try_counters attempt cs = Inl (ValueError ''Failed to hash to curve'')"
  by (induction cs) auto

lemma try_counters_first:
  "\<forall>i \<in> set pre. \<exists>m. attempt i = Inl (ValueError m) \<Longrightarrow>
   \<forall>m. attempt j \<noteq> Inl (ValueError m) \<Longrightarrow>
   try_counters attempt (pre @ j # post) = attempt j"
  by (induction pre) (auto split: sum.splits py_error.splits)

text \<open>
  C7, as the code has it: \<^verbatim>\<open>hash_to_curve\<close> returns no point. For every library,
  identifier and seed, on the curve of line 12, the call ends in the TypeError of the
  constructor call at line 28. The claim says that a point of the curve, of order
  \<open>q\<close>, is returned.
\<close>

theorem hash_to_curve_returns_no_point:
  "hash_to_curve L (g\<lparr>curve := SECP256R1\<rparr>) ident sd = Inl TypeError"
  by (rule hash_to_curve_TypeError) (simp add: field_size_P256_nonzero)

text \<open>
  C10, as the code has it, at the identifier and seed of the tests: no counter yields
  a point (each pass of the loop body raises TypeError), and the call does not end in
  the error \<^verbatim>\<open>Failed to hash to curve\<close> that the claim names for that case.
\<close>

theorem hash_to_curve_not_failed_to_hash:
  "hash_attempt L example_group (test_seed @ encode_str ''user1'') i = Inl TypeError \<and>
   hash_to_curve L example_group ''user1'' test_seed \<noteq> Inl (ValueError ''Failed to hash to curve'')"
  by (simp add: hash_attempt_TypeError hash_to_curve_TypeError curve_example_group
      field_size_P256_nonzero)

text \<open>
  C8, as the code has it: the two invocations of \<^verbatim>\<open>test_hash_to_curve_consistency\<close>,
  with the same identifier and the same seed, produce no point to compare. The test
  ends in the TypeError of the first invocation, for every library and for any two
  parties on the curve of line 12, and never reaches its assertions.
\<close>

theorem hash_to_curve_test_raises:
  "test_hash_to_curve_consistency L (p1\<lparr>ddh := example_group\<rparr>) (p2\<lparr>ddh := example_group\<rparr>)
     = Inl TypeError"
  by (simp add: test_hash_to_curve_consistency_def Let_def hash_to_curve_TypeError
      curve_example_group field_size_P256_nonzero)

section \<open>exponentiate\<close>

text \<open>
  The loop of lines 40 to 45, by itself, adds the coordinates of the point as integers.
\<close>

lemma add_coordinates_Numbers:
  "add_coordinates c px py m (Numbers rx ry) = Inr (Numbers (rx + int m * px) (ry + int m * py))"
  by (induction m arbitrary: rx ry) (simp_all add: algebra_simps)

text \<open>
  The loop is not reached: after the private key of line 36 has been derived, line 37
  looks up \<^verbatim>\<open>to_key\<close> on the point.
\<close>

lemma exponentiate_outcome:
  "exponentiate L g point exponent =
     (if valid_private_value L (curve g) exponent then Inl AttributeError
      else Inl (ValueError ''invalid private value''))"
  by (simp add: exponentiate_def derive_private_key_def to_key_def)

lemma exponentiate_not_Inr: "exponentiate L g point exponent \<noteq> Inr r"
  by (simp add: exponentiate_outcome)

lemma valid_private_value_1: "valid_private_value example_ec SECP256R1 1"
  by (simp add: example_ec_def SECP256R1_def)

lemma valid_private_value_2: "valid_private_value example_ec SECP256R1 2"
  by (simp add: example_ec_def SECP256R1_def)

text \<open>
  C3, as the code has it: \<^verbatim>\<open>exponentiate\<close> yields no point, for any point and scalar,
  so neither order of two exponentiations yields one. With the base point of P-256
  and the scalars 1 and 2, both orders end in the AttributeError of line 37, raised
  by the first of the two calls.
\<close>

theorem exponentiate_yields_no_point:
  "exponentiate L g point a \<noteq> Inr r \<and>
   bind_err (exponentiate example_ec example_group (Numbers p256_base_x p256_base_y) 1)
     (\<lambda>r. exponentiate example_ec example_group r 2) = Inl AttributeError \<and>
   bind_err (exponentiate example_ec example_group (Numbers p256_base_x p256_base_y) 2)
     (\<lambda>r. exponentiate example_ec example_group r 1) = Inl AttributeError"
  by (simp add: exponentiate_outcome curve_example_group valid_private_value_1
      valid_private_value_2)

section \<open>Decoding of the points of a message\<close>

lemma deserialize_cases:
  "deserialize L c bs =
     (case decode_point L c bs of
        None \<Rightarrow> Inl (ValueError ''invalid encoded point'')
      | Some (x, y) \<Rightarrow> Inr (Numbers x y))"
  by (simp add: deserialize_def from_encoded_point_def public_numbers_def split: option.splits)

lemma base_decodes: "decode_x962 SECP256R1 p256_base_bytes = Some (p256_base_x, p256_base_y)"
  by (simp add: decode_x962_def p256_base_bytes_def
      int_from_bytes_def on_curve_def SECP256R1_def p256_base_x_def p256_base_y_def)

lemma double_decodes: "decode_x962 SECP256R1 p256_double_bytes = Some
    (56515219790691171413109057904011688695424810155802929973526481321309856242040,
     3377031843712258259223711451491452598088675519751548567112458094635497583569)"
  by (simp add: decode_x962_def p256_double_bytes_def
      int_from_bytes_def on_curve_def SECP256R1_def)

lemma tampered_rejected: "decode_x962 SECP256R1 tampered_bytes = None"
  by (simp add: decode_x962_def tampered_bytes_def p256_base_bytes_def
      int_from_bytes_def on_curve_def SECP256R1_def)

lemma decode_point_example_ec: "decode_point example_ec = decode_x962"
  by (simp add: example_ec_def)

lemma example_party1_fields:
  "curve (ddh example_party1) = SECP256R1" "k example_party1 = 1"
  "other_public_key example_party1 = Some (public_key (example_keygen 1536 0))"
  by (simp_all add: example_party1_def example_group_def)

lemma example_party2_fields:
  "curve (ddh example_party2) = SECP256R1" "k example_party2 = 1"
  by (simp_all add: example_party2_def example_group_def)

section \<open>Rounds 2 and 3 on a message with points\<close>

text \<open>
  In \<^verbatim>\<open>round2\<close> each point of the message is decoded and then exponentiated (lines 117
  and 118), and in \<^verbatim>\<open>round3\<close> each pair likewise (lines 89 and 90). The first point
  decides the outcome: it is rejected by the decoder, or its exponentiation raises.
\<close>

lemma round2_z_outcome:
  "round2_z L self b =
     (case decode_point L (curve (ddh self)) b of
        None \<Rightarrow> Inl (ValueError ''invalid encoded point'')
      | Some xy \<Rightarrow>
          if valid_private_value L (curve (ddh self)) (k self) then Inl AttributeError
          else Inl (ValueError ''invalid private value''))"
  by (simp add: round2_z_def deserialize_cases exponentiate_outcome split: option.splits)

lemma round2_raises_on_points: "round2 L P pz pw rs self (b # rest) \<noteq> Inr res"
  by (simp add: round2_def round2_z_outcome split: option.splits)

lemma round2_first_point_undecodable:
  "decode_point L (curve (ddh self)) b = None \<Longrightarrow>
   round2 L P pz pw rs self (b # rest) = Inl (ValueError ''invalid encoded point'')"
  by (simp add: round2_def round2_z_outcome)

lemma round3_intersection_raises:
  "round3_intersection L self zp acc (wc # rest) \<noteq> Inr res"
  by (cases wc) (simp add: deserialize_cases exponentiate_outcome split: option.splits)

lemma round3_intersection_first:
  "round3_intersection L self zp acc ((w, c) # rest) =
     (case decode_point L (curve (ddh self)) w of
        None \<Rightarrow> Inl (ValueError ''invalid encoded point'')
      | Some xy \<Rightarrow>
          if valid_private_value L (curve (ddh self)) (k self) then Inl AttributeError
          else Inl (ValueError ''invalid private value''))"
  by (simp add: deserialize_cases exponentiate_outcome split: option.splits)

lemma round3_z_points_example:
  "round3_z_points example_ec example_party1 [p256_base_bytes] = Inr [(p256_base_x, p256_base_y)]"
  by (simp add: round3_z_points_def round3_z_point_def deserialize_cases example_party1_fields
      decode_point_example_ec base_decodes)

lemma map_err_single_error:
  "\<forall>x e. f x = Inl e \<longrightarrow> e = e0 \<Longrightarrow> \<exists>x \<in> set xs. f x = Inl e0 \<Longrightarrow> map_err f xs = Inl e0"
proof (induction xs)
  case Nil
  then show ?case by simp
next
  case (Cons x xs)
  show ?case
  proof (cases "f x")
    case (Inl e)
    with Cons.prems(1) show ?thesis by simp
  next
    case (Inr y)
    with Cons.prems(2) have "\<exists>x \<in> set xs. f x = Inl e0" by auto
    from Cons.IH [OF Cons.prems(1) this] Inr show ?thesis by simp
  qed
qed

lemma round3_z_point_outcome:
  "round3_z_point L self b =
     (case decode_point L (curve (ddh self)) b of
        None \<Rightarrow> Inl (ValueError ''invalid encoded point'')
      | Some (x, y) \<Rightarrow> Inr (x, y))"
  by (simp add: round3_z_point_def deserialize_cases split: option.splits)

lemma round3_undecodable_in_z:
  assumes "\<exists>b \<in> set z. decode_point L (curve (ddh self)) b = None"
  shows "round3 L P r self z w_pairs = Inl (ValueError ''invalid encoded point'')"
proof -
  have "\<forall>b e. round3_z_point L self b = Inl e \<longrightarrow> e = ValueError ''invalid encoded point''"
    by (auto simp: round3_z_point_outcome split: option.splits)
  moreover have "\<exists>b \<in> set z. round3_z_point L self b = Inl (ValueError ''invalid encoded point'')"
  proof -
    from assms obtain b where b: "b \<in> set z" "decode_point L (curve (ddh self)) b = None"
      by blast
    then have "round3_z_point L self b = Inl (ValueError ''invalid encoded point'')"
      by (simp add: round3_z_point_outcome)
    with b(1) show ?thesis by blast
  qed
  ultimately have "map_err (round3_z_point L self) z = Inl (ValueError ''invalid encoded point'')"
    by (rule map_err_single_error)
  then show ?thesis
    by (simp add: round3_def round3_z_points_def)
qed

text \<open>
  C9, as the code has it: a tampered point behind a valid one is never decoded. With
  the base point of P-256 followed by a copy of it with one byte changed, which the
  decoder rejects, \<^verbatim>\<open>round2\<close> ends in the AttributeError of line 37 (reached from line
  118 for the valid point), and so does \<^verbatim>\<open>round3\<close> for two such pairs (from line 90);
  neither ends in the decoder's rejection of the tampered point. No partial result
  is returned in either case.
\<close>

theorem valid_point_before_tampered_point:
  "decode_point example_ec (curve (ddh example_party2)) p256_base_bytes
     = Some (p256_base_x, p256_base_y) \<and>
   decode_point example_ec (curve (ddh example_party2)) tampered_bytes = None \<and>
   round2 example_ec P pz pw rs example_party2 [p256_base_bytes, tampered_bytes]
     = Inl AttributeError \<and>
   round3 example_ec P r example_party1 [p256_base_bytes]
     [(p256_base_bytes, c1), (tampered_bytes, c2)] = Inl AttributeError"
  by (simp add: round2_def round2_z_outcome round3_def round3_z_points_example
      round3_intersection_first decode_point_example_ec example_party1_fields
      example_party2_fields base_decodes tampered_rejected valid_private_value_1
      del: round3_intersection.simps)

section \<open>The result of round 3\<close>

lemma round3_raises: "round3 L P r self z (wc # rest) \<noteq> Inr res"
proof (cases "round3_z_points L self z")
  case (Inl e)
  then show ?thesis by (simp add: round3_def)
next
  case (Inr zp)
  obtain e where "round3_intersection L self zp [] (wc # rest) = Inl e"
    using round3_intersection_raises [of L self zp "[]" wc rest]
    by (cases "round3_intersection L self zp [] (wc # rest)") auto
  with Inr show ?thesis by (simp add: round3_def)
qed

lemma foldl_repeated_add: "foldl (ct_add P) acc cs = repeated_add P acc cs"
  by (induction cs arbitrary: acc) simp_all

lemma round3_sum_spec:
  "round3_sum P r self I =
     (case other_public_key self of
        None \<Rightarrow> Inl AttributeError
      | Some pk \<Rightarrow> Inr (length I, spec_sum_ciphertext P pk r I))"
  by (simp add: round3_sum_def spec_sum_ciphertext_def rerandomize_def foldl_repeated_add Let_def
      split: option.splits list.splits)

lemma round3_no_pairs:
  "round3_z_points L self z = Inr zp \<Longrightarrow> other_public_key self = Some pk \<Longrightarrow>
   round3 L P r self z [] = Inr (0, encrypt P pk r 0)"
  by (simp add: round3_def round3_sum_spec spec_sum_ciphertext_def)

text \<open>
  C4, as the code has it: \<^verbatim>\<open>round3\<close> returns nothing for a message with at least one
  pair. For one pair whose point does not match (\<open>I\<close> empty) it does not return
  \<open>encrypt(pk, 0)\<close>, and for one pair whose point matches it does not return the
  rerandomised sum: both end in the AttributeError of line 37, reached from line 90.
  Lines 94 to 104 by themselves compute what the specification describes
  (\<open>round3_sum_spec\<close>), and a message without pairs gives cardinality 0 and
  \<open>encrypt(pk, 0)\<close> (\<open>round3_no_pairs\<close>).
\<close>

theorem round3_raises_on_pairs:
  "round3 L P r self z (wc # rest) \<noteq> Inr res \<and>
   round3 example_ec P r example_party1 [p256_base_bytes] [(p256_double_bytes, c)]
     = Inl AttributeError \<and>
   round3 example_ec P r example_party1 [p256_base_bytes] [(p256_base_bytes, c)]
     = Inl AttributeError"
proof -
  have "round3 example_ec P r example_party1 [p256_base_bytes] [(p256_double_bytes, c)]
     = Inl AttributeError"
    by (simp add: round3_def round3_z_points_example
        round3_intersection_first decode_point_example_ec example_party1_fields
        double_decodes valid_private_value_1 del: round3_intersection.simps)
  moreover have "round3 example_ec P r example_party1 [p256_base_bytes] [(p256_base_bytes, c)]
     = Inl AttributeError"
    by (simp add: round3_def round3_z_points_example
        round3_intersection_first decode_point_example_ec example_party1_fields
        base_decodes valid_private_value_1 del: round3_intersection.simps)
  ultimately show ?thesis
    using round3_raises [of L P r self z wc rest res] by blast
qed

section \<open>Key generation\<close>

lemma generate_paillier_keypair_key:
  "key_pair (generate_paillier_keypair P r self) = Some (paillier_keygen P 1536 r)"
  by (simp add: generate_paillier_keypair_def)

text \<open>
  C6, amended: key generation asks the Paillier library for a modulus of 1536 bits
  (line 59, two primes of 768 bits). With a library that returns a modulus of the
  requested length, the plaintext modulus \<open>N\<close> of the party's key pair has exactly 1536
  bits: \<open>2^1535 \<le> N < 2^1536\<close>.
\<close>

theorem keypair_modulus_1536_bits:
  assumes "\<forall>len r. 0 < len \<longrightarrow>
             2 ^ (len - 1) \<le> modulus_n (public_key (paillier_keygen P len r)) \<and>
             modulus_n (public_key (paillier_keygen P len r)) < 2 ^ len"
    and "key_pair (generate_paillier_keypair P r self) = Some kp"
  shows "2 ^ 1535 \<le> modulus_n (public_key kp) \<and> modulus_n (public_key kp) < 2 ^ 1536"
proof -
  from assms(2) have kp: "kp = paillier_keygen P 1536 r"
    by (simp add: generate_paillier_keypair_key)
  from assms(1) have "(0::nat) < 1536 \<longrightarrow>
      2 ^ (1536 - 1) \<le> modulus_n (public_key (paillier_keygen P 1536 r)) \<and>
      modulus_n (public_key (paillier_keygen P 1536 r)) < 2 ^ 1536"
    by blast
  then show ?thesis
    by (simp add: kp)
qed

lemma example_modulus_bounds:
  "2 ^ 1535 \<le> example_prime_p * example_prime_q \<and> example_prime_p * example_prime_q < 2 ^ 1536"
  by (simp add: example_prime_p_def example_prime_q_def)

lemma example_keygen_length:
  "0 < len \<Longrightarrow>
     2 ^ (len - 1) \<le> modulus_n (public_key (example_keygen len r)) \<and>
     modulus_n (public_key (example_keygen len r)) < 2 ^ len"
proof (cases "len = 1536")
  case True
  then show ?thesis
    using example_modulus_bounds by (simp add: example_keygen_def)
next
  case False
  assume "0 < len"
  then obtain m where m: "len = Suc m" by (cases len) auto
  have "(1::int) \<le> 2 ^ m" by simp
  then have "(2::int) ^ m \<le> 2 * 2 ^ m - 1" by linarith
  with False show ?thesis
    by (simp add: example_keygen_def m)
qed

lemma paillier_keygen_example: "paillier_keygen example_phe = example_keygen"
  by (simp add: example_phe_def)

theorem keypair_modulus_1536_bits_witness:
  "key_pair (generate_paillier_keypair example_phe 0 example_party2) = Some (example_keygen 1536 0) \<and>
   2 ^ 1535 \<le> modulus_n (public_key (example_keygen 1536 0)) \<and>
   modulus_n (public_key (example_keygen 1536 0)) < 2 ^ 1536"
proof -
  have c: "\<forall>len r. 0 < len \<longrightarrow>
             2 ^ (len - 1) \<le> modulus_n (public_key (paillier_keygen example_phe len r)) \<and>
             modulus_n (public_key (paillier_keygen example_phe len r)) < 2 ^ len"
    unfolding paillier_keygen_example using example_keygen_length by blast
  have kp: "key_pair (generate_paillier_keypair example_phe 0 example_party2) = Some (example_keygen 1536 0)"
    by (simp add: generate_paillier_keypair_key paillier_keygen_example)
  from keypair_modulus_1536_bits [OF c kp] kp show ?thesis by simp
qed

text \<open>
  C6, as stated, fails: for the key that the library returns for the two 768-bit
  primes of the example, the modulus of the party's key pair is below \<open>2^3072\<close>.
\<close>

theorem keypair_modulus_below_3072_bits:
  "key_pair (generate_paillier_keypair example_phe 0 example_party2) = Some (example_keygen 1536 0) \<and>
   \<not> 2 ^ 3072 \<le> modulus_n (public_key (example_keygen 1536 0))"
  by (simp add: generate_paillier_keypair_key paillier_keygen_example example_keygen_def
      example_prime_p_def example_prime_q_def)

section \<open>Construction of a party\<close>

text \<open>
  The generator constant of lines 14 and 15 is the base point of another curve
  (secp256k1) and does not satisfy the equation of P-256, so a decoder that returns
  points of the curve only rejects it at line 13.
\<close>

lemma generator_coordinates:
  "int_from_bytes (take 32 (tl generator_bytes)) =
     55066263022277343669578718895168534326250603453777594175500187360389116729240"
  "int_from_bytes (drop 32 (tl generator_bytes)) =
     32670510020758816978083085130507043184471273380659243275938904335757337482424"
  by (simp_all add: generator_bytes_def int_from_bytes_def)

lemma generator_off_curve:
  "\<not> on_curve SECP256R1
     55066263022277343669578718895168534326250603453777594175500187360389116729240
     32670510020758816978083085130507043184471273380659243275938904335757337482424"
  by (simp add: on_curve_def SECP256R1_def)

lemma generator_bytes_tag: "generator_bytes = 0x04 # tl generator_bytes"
  by (simp add: generator_bytes_def)

lemma generator_rejected:
  assumes "decoder_validates L"
  shows "decode_point L SECP256R1 generator_bytes = None"
proof (cases "decode_point L SECP256R1 generator_bytes")
  case None
  then show ?thesis .
next
  case (Some xy)
  obtain x y where xy: "xy = (x, y)" by (cases xy)
  from assms Some xy have oc: "on_curve SECP256R1 x y"
    and co: "\<forall>rest. generator_bytes = 0x04 # rest \<longrightarrow>
           x = int_from_bytes (take 32 rest) \<and> y = int_from_bytes (drop 32 rest)"
    unfolding decoder_validates_def by blast+
  from co generator_bytes_tag
  have "x = int_from_bytes (take 32 (tl generator_bytes))"
    "y = int_from_bytes (drop 32 (tl generator_bytes))"
    by blast+
  with oc generator_off_curve show ?thesis
    by (simp add: generator_coordinates)
qed

lemma DDHGroup_init_raises:
  "decoder_validates L \<Longrightarrow> DDHGroup_init L = Inl (ValueError ''invalid encoded point'')"
  by (simp add: DDHGroup_init_def from_encoded_point_def generator_rejected)

lemma Party_init_raises:
  "decoder_validates L \<Longrightarrow> Party_init L nm src d = Inl (ValueError ''invalid encoded point'')"
  by (simp add: Party_init_def DDHGroup_init_raises)

text \<open>
  C5, as the code has it: no party is constructed and no private exponent is drawn.
  With a decoder that validates the point, the constructors of both parties end in
  the ValueError of line 13, raised while line 51 builds the group, before line 55
  draws \<open>k\<close>.
\<close>

theorem no_party_is_constructed:
  "decoder_validates L \<Longrightarrow>
     Party1_init L ids src1 d1 = Inl (ValueError ''invalid encoded point'') \<and>
     Party2_init L P prs src2 d2 r = Inl (ValueError ''invalid encoded point'')"
  by (simp add: Party1_init_def Party2_init_def Party_init_raises)

lemma decoder_validates_example: "decoder_validates example_ec"
  unfolding decoder_validates_def
  by (auto simp: example_ec_def decode_x962_def Let_def split: list.splits if_splits)

theorem no_party_is_constructed_witness:
  "decoder_validates example_ec \<and>
   Party1_init example_ec [''user1''] (\<lambda>i. 0) 5 = Inl (ValueError ''invalid encoded point'') \<and>
   Party2_init example_ec example_phe [(''user1'', 10)] (\<lambda>i. 1) 7 0 =
     Inl (ValueError ''invalid encoded point'')"
  using decoder_validates_example
    no_party_is_constructed [OF decoder_validates_example, of "[''user1'']" "\<lambda>i. 0" 5
      example_phe "[(''user1'', 10)]" "\<lambda>i. 1" 7 0]
  by simp


section \<open>A run of the protocol\<close>

text \<open>
  C1, as the code has it, on the inputs of \<^verbatim>\<open>test_basic_intersection\<close> with the seed of
  the tests shared by both parties: the run returns no cardinality and no sum. It
  ends in round 1 with the TypeError of \<^verbatim>\<open>hash_to_curve\<close>, for every library and every
  draw.
\<close>

theorem run_protocol_test_input_raises:
  "run_protocol L P d
     (example_party1\<lparr>identifiers := [''user1'', ''user2'', ''user3'', ''user4'']\<rparr>)
     (example_party2\<lparr>pairs := [(''user2'', 10), (''user3'', 20), (''user5'', 30)]\<rparr>)
   = Inl TypeError"
proof -
  let ?p1 = "set_other_public_key (public_key (example_keygen 1536 0))
     (example_party1\<lparr>identifiers := [''user1'', ''user2'', ''user3'', ''user4'']\<rparr>)"
  have g: "field_size (curve (ddh ?p1)) \<noteq> 0"
    by (simp add: set_other_public_key_def example_party1_def curve_example_group
        field_size_P256_nonzero)
  have ids: "identifiers ?p1 = [''user1'', ''user2'', ''user3'', ''user4'']"
    by (simp add: set_other_public_key_def)
  have "round1 L (perm1 d) ?p1 = Inl TypeError"
    by (simp add: round1_def ids hash_to_curve_TypeError [OF g])
  moreover have "key_pair (example_party2\<lparr>pairs := [(''user2'', 10), (''user3'', 20), (''user5'', 30)]\<rparr>)
      = Some (example_keygen 1536 0)"
    by (simp add: example_party2_def)
  ultimately show ?thesis
    by (simp add: run_protocol_def Let_def)
qed

end
